theory Spec2Isabelle
  imports Complex_Main "HOL-Library.Multiset"
begin

section \<open>Values and stores\<close>

text \<open>
  The recommender (\<^verbatim>\<open>baseline_recommender.py\<close>) reads two SQLite databases, builds a
  preference dictionary, scores every catalog item and returns the best ones. The re-ranker
  (\<^verbatim>\<open>utils/reranker.py\<close>) sends the candidates to a language model and reads the ids
  back from its reply.

  Modelling decisions, once for the whole development:
  \<^item> Python's numbers (\<^verbatim>\<open>int\<close> and \<^verbatim>\<open>float\<close>) are real numbers: the arithmetic has the
    shape of the source's, without rounding, infinities or NaN.
  \<^item> A \<^verbatim>\<open>str\<close> that is handed to \<^verbatim>\<open>json.loads\<close> is modelled by what \<^verbatim>\<open>json.loads\<close>
    makes of it (type \<open>pytext\<close>): the parser is the standard library's, not this repository's.
  \<^item> The genres and tags columns, when they parse, hold what the ingestion job writes:
    a list of strings, and a list of tags, each a bare string or a dict whose \<^verbatim>\<open>name\<close>,
    when present, is a string and whose \<^verbatim>\<open>rank\<close>, when present, is a number.
  \<^item> An exception that leaves a function is the \<open>Inl\<close> of its result.
\<close>

datatype error = JSONDecodeError | APIError

datatype 'a pytext = EmptyStr | Malformed | Wellformed 'a

text \<open>
  \<^verbatim>\<open>json.loads(s)\<close>: raises on the empty string and on every other text that is not JSON.
\<close>

definition json_loads :: "'a pytext \<Rightarrow> error + 'a" where
  "json_loads s = (case s of EmptyStr \<Rightarrow> Inl JSONDecodeError
                            | Malformed \<Rightarrow> Inl JSONDecodeError
                            | Wellformed v \<Rightarrow> Inr v)"

text \<open>
  The truth value of a TEXT cell as Python sees it: \<^verbatim>\<open>None\<close> (SQL NULL) and the empty
  string are false.
\<close>

definition truthy :: "'a pytext option \<Rightarrow> bool" where
  "truthy x = (case x of None \<Rightarrow> False | Some EmptyStr \<Rightarrow> False | Some _ \<Rightarrow> True)"

text \<open>The expression \<^verbatim>\<open>json.loads(x) if x else []\<close> (lines 24, 28, 64 and 65).\<close>

definition loads_if :: "'a list pytext option \<Rightarrow> error + 'a list" where
  "loads_if x = (case x of None \<Rightarrow> Inr []
                        | Some s \<Rightarrow> (if truthy x then json_loads s else Inr []))"

text \<open>
  The same expression inside \<^verbatim>\<open>try: ... except Exception: ... = []\<close> (lines 23 to 30).
\<close>

definition try_loads :: "'a list pytext option \<Rightarrow> 'a list" where
  "try_loads x = (case loads_if x of Inl e \<Rightarrow> [] | Inr v \<Rightarrow> v)"

text \<open>
  A tag is a bare string or a dict; of a dict only the keys \<^verbatim>\<open>name\<close> and \<^verbatim>\<open>rank\<close> are
  read, each present or absent.
\<close>

datatype tag = TagStr string | TagDict "string option" "real option"

text \<open>
  \<^verbatim>\<open>tag.get("name", "") if isinstance(tag, dict) else tag\<close> (lines 36 to 39, 111 to 115, 152).
\<close>

fun tag_name :: "tag \<Rightarrow> string" where
  "tag_name (TagDict nm rk) = (case nm of Some s \<Rightarrow> s | None \<Rightarrow> [])"
| "tag_name (TagStr s) = s"

text \<open>\<^verbatim>\<open>tag.get("rank", 1)\<close> for a dict, 1 for a string (lines 113 and 116).\<close>

fun tag_rank :: "tag \<Rightarrow> real" where
  "tag_rank (TagDict nm rk) = (case rk of Some r \<Rightarrow> r | None \<Rightarrow> 1)"
| "tag_rank (TagStr s) = 1"

text \<open>
  A key of a dict that \<^verbatim>\<open>.get\<close> reads: missing, present with the value \<^verbatim>\<open>None\<close>, or
  present with a number.
\<close>

datatype 'a entry = Missing | PyNone | Val 'a

text \<open>\<^verbatim>\<open>media.get(key) or 0\<close> (lines 122 and 126): every false value becomes 0.\<close>

definition get_or_0 :: "real entry \<Rightarrow> real" where
  "get_or_0 e = (case e of Val v \<Rightarrow> (if v \<noteq> 0 then v else 0) | PyNone \<Rightarrow> 0 | Missing \<Rightarrow> 0)"

text \<open>The media dict that \<^verbatim>\<open>get_global_media\<close> builds and \<^verbatim>\<open>compute_similarity\<close> reads.\<close>

record media =
  media_id :: int
  title_romaji :: "string option"
  title_english :: "string option"
  title_native :: "string option"
  genres :: "string list"
  tags :: "tag list"
  average_score :: "real entry"
  popularity :: "real entry"

text \<open>
  The personal database: the columns of its tables \<^verbatim>\<open>media\<close> and
  \<^verbatim>\<open>media_list_entries\<close> that the queries read.
\<close>

record media_row =
  pm_id :: int
  pm_genres :: "string list pytext option"
  pm_tags :: "tag list pytext option"

record list_entry =
  mle_media_id :: int
  mle_status :: "string option"
  mle_score :: "real option"

record personal_db =
  db_media :: "media_row list"
  db_media_list_entries :: "list_entry list"

text \<open>
  A row of the table \<^verbatim>\<open>global_media\<close> (\<^verbatim>\<open>init_global_db\<close> in
  \<^verbatim>\<open>ingest/global_ingest.py\<close>); the columns episodes, description and rankings are never
  read by the recommender and are left out.
\<close>

record global_row =
  gm_id :: int
  gm_title_romaji :: "string option"
  gm_title_english :: "string option"
  gm_title_native :: "string option"
  gm_genres :: "string list pytext option"
  gm_tags :: "tag list pytext option"
  gm_average_score :: "int option"
  gm_popularity :: "int option"

type_synonym preference = "string \<rightharpoonup> real"

section \<open>The preference profile\<close>

text \<open>
  The query of \<^verbatim>\<open>get_user_preferences\<close> (lines 11 to 16): the join of the two tables on
  the media id, kept where the status is COMPLETED and the score is not NULL.
\<close>

definition preference_query ::
  "personal_db \<Rightarrow> (string list pytext option \<times> tag list pytext option \<times> real) list" where
  "preference_query db =
     [(pm_genres m, pm_tags m, the (mle_score e)).
        m \<leftarrow> db_media db, e \<leftarrow> db_media_list_entries db,
        pm_id m = mle_media_id e, mle_status e = Some ''COMPLETED'', mle_score e \<noteq> None]"

text \<open>\<^verbatim>\<open>preference[k] = preference.get(k, 0) + score\<close> (lines 33 and 40).\<close>

definition add_weight :: "preference \<Rightarrow> string \<Rightarrow> real \<Rightarrow> preference" where
  "add_weight preference k score =
     preference(k \<mapsto> (case preference k of None \<Rightarrow> 0 | Some w \<Rightarrow> w) + score)"

text \<open>The body of the loop over the rows (lines 23 to 40).\<close>

definition preference_row ::
  "preference \<Rightarrow> string list pytext option \<times> tag list pytext option \<times> real \<Rightarrow> preference" where
  "preference_row preference row =
     (case row of (genres_json, tags_json, score) \<Rightarrow>
        (let genres = try_loads genres_json;
             tags = try_loads tags_json;
             preference = foldl (\<lambda>p genre. add_weight p genre score) preference genres
         in foldl (\<lambda>p tag. add_weight p (tag_name tag) score) preference tags))"

definition get_user_preferences :: "personal_db \<Rightarrow> preference" where
  "get_user_preferences db = foldl preference_row Map.empty (preference_query db)"

section \<open>The catalog and the engagement sets\<close>

text \<open>
  \<^verbatim>\<open>get_global_media\<close> (lines 57 to 68): no \<^verbatim>\<open>try\<close> stands around its two
  \<^verbatim>\<open>json.loads\<close>, so the first row that does not parse ends the function with the error.
\<close>

fun get_global_media :: "global_row list \<Rightarrow> error + media list" where
  "get_global_media [] = Inr []"
| "get_global_media (row # results) =
     (case loads_if (gm_genres row) of
        Inl e \<Rightarrow> Inl e
      | Inr g \<Rightarrow>
          (case loads_if (gm_tags row) of
             Inl e \<Rightarrow> Inl e
           | Inr t \<Rightarrow>
               (case get_global_media results of
                  Inl e \<Rightarrow> Inl e
                | Inr media_list \<Rightarrow>
                    Inr (\<lparr>media_id = gm_id row,
                          title_romaji = gm_title_romaji row,
                          title_english = gm_title_english row,
                          title_native = gm_title_native row,
                          genres = g, tags = t,
                          average_score = Missing, popularity = Missing\<rparr> # media_list))))"

text \<open>
  Lines 76 to 81 and 90 to 95. In SQL a NULL status is neither equal to nor different from
  \<^verbatim>\<open>'PLANNING'\<close>, so such a row is in neither set.
\<close>

definition get_user_planned_media_ids :: "personal_db \<Rightarrow> int set" where
  "get_user_planned_media_ids db =
     set [mle_media_id e. e \<leftarrow> db_media_list_entries db, mle_status e = Some ''PLANNING'']"

definition get_user_watched_media_ids :: "personal_db \<Rightarrow> int set" where
  "get_user_watched_media_ids db =
     set [mle_media_id e. e \<leftarrow> db_media_list_entries db,
            mle_status e \<noteq> None, mle_status e \<noteq> Some ''PLANNING'']"

section \<open>The similarity score\<close>

definition compute_similarity :: "media \<Rightarrow> preference \<Rightarrow> real" where
  "compute_similarity m preference =
     (let score = 0;
          score = foldl (\<lambda>score genre.
                    (case preference genre of Some w \<Rightarrow> score + w | None \<Rightarrow> score))
                    score (genres m);
          score = foldl (\<lambda>score tag.
                    (case preference (tag_name tag) of
                       Some w \<Rightarrow> score + w * (tag_rank tag / 100.0)
                     | None \<Rightarrow> score))
                    score (tags m);
          avg = get_or_0 (average_score m);
          score = score + avg * 0.1;
          pop = get_or_0 (popularity m);
          score = score + pop / 1000000.0
      in score)"

section \<open>The recommendation engine\<close>

text \<open>\<^verbatim>\<open>str.lower()\<close>, on ASCII letters.\<close>

definition lower_char :: "char \<Rightarrow> char" where
  "lower_char c =
     (case map_of (zip ''ABCDEFGHIJKLMNOPQRSTUVWXYZ'' ''abcdefghijklmnopqrstuvwxyz'') c of
        Some d \<Rightarrow> d | None \<Rightarrow> c)"

definition lower :: "string \<Rightarrow> string" where
  "lower s = map lower_char s"

text \<open>The two list comprehensions of lines 151 and 152 (and again 160 and 161).\<close>

definition genres_lower :: "media \<Rightarrow> string list" where
  "genres_lower m = map lower (genres m)"

definition tags_lower :: "media \<Rightarrow> string list" where
  "tags_lower m = map (\<lambda>tag. lower (tag_name tag)) (tags m)"

text \<open>
  The test of line 153, under the \<^verbatim>\<open>if desired_genre:\<close> of line 150, which holds for a
  string that is not empty (\<^verbatim>\<open>None\<close> and the empty string are false): the item is skipped.
\<close>

definition genre_filtered_out :: "string option \<Rightarrow> media \<Rightarrow> bool" where
  "genre_filtered_out desired_genre m =
     (case desired_genre of
        None \<Rightarrow> False
      | Some g \<Rightarrow> g \<noteq> [] \<and> lower g \<notin> set (genres_lower m) \<and> lower g \<notin> set (tags_lower m))"

text \<open>Lines 159 to 165: the boost for the desired genre.\<close>

definition genre_boost :: "string option \<Rightarrow> media \<Rightarrow> real \<Rightarrow> real" where
  "genre_boost desired_genre m sim =
     (case desired_genre of
        None \<Rightarrow> sim
      | Some g \<Rightarrow>
          (if g \<noteq> [] then
             (if lower g \<in> set (genres_lower m) then sim * 1.2
              else if lower g \<in> set (tags_lower m) then sim * 1.1
              else sim)
           else sim))"

text \<open>Lines 168 and 169: the boost for a planned item.\<close>

definition planned_boost :: "int set \<Rightarrow> media \<Rightarrow> real \<Rightarrow> real" where
  "planned_boost planned_ids m sim = (if media_id m \<in> planned_ids then sim * 1.5 else sim)"

text \<open>The loop of lines 143 to 171; \<^verbatim>\<open>continue\<close> goes on with the rest of the catalog.\<close>

fun recommend_loop ::
  "preference \<Rightarrow> int set \<Rightarrow> int set \<Rightarrow> string option \<Rightarrow> media list \<Rightarrow> (media \<times> real) list" where
  "recommend_loop preference planned_ids watched_ids desired_genre [] = []"
| "recommend_loop preference planned_ids watched_ids desired_genre (m # global_media) =
     (if media_id m \<in> watched_ids then
        recommend_loop preference planned_ids watched_ids desired_genre global_media
      else if genre_filtered_out desired_genre m then
        recommend_loop preference planned_ids watched_ids desired_genre global_media
      else
        (let sim = compute_similarity m preference;
             sim = genre_boost desired_genre m sim;
             sim = planned_boost planned_ids m sim
         in (m, sim) # recommend_loop preference planned_ids watched_ids desired_genre global_media))"

text \<open>
  \<^verbatim>\<open>recommendations.sort(key=lambda x: x[1], reverse=True)\<close> (line 173). Python's sort is
  stable; with \<^verbatim>\<open>reverse=True\<close> it reverses the list, sorts it stably in ascending order
  of the key and reverses the result, which keeps equal keys in their original order.
\<close>

definition sort_reverse :: "(media \<times> real) list \<Rightarrow> (media \<times> real) list" where
  "sort_reverse recommendations = rev (sort_key snd (rev recommendations))"

text \<open>
  The slice \<^verbatim>\<open>xs[:n]\<close> (line 174): a negative \<^verbatim>\<open>n\<close> counts from the end of the list.
\<close>

definition slice_to :: "'a list \<Rightarrow> int \<Rightarrow> 'a list" where
  "slice_to xs n = (if 0 \<le> n then take (nat n) xs else take (nat (int (length xs) + n)) xs)"

text \<open>
  \<^verbatim>\<open>recommend_top_media\<close> (lines 138 to 174): the four reads, in the source's order, then
  the loop, the sort and the slice. The error of the catalog read leaves the function.
\<close>

definition recommend_top_media ::
  "personal_db \<Rightarrow> global_row list \<Rightarrow> int \<Rightarrow> string option \<Rightarrow> error + (media \<times> real) list" where
  "recommend_top_media db global_db top_n desired_genre =
     (let preference = get_user_preferences db in
      case get_global_media global_db of
        Inl e \<Rightarrow> Inl e
      | Inr global_media \<Rightarrow>
          (let planned_ids = get_user_planned_media_ids db;
               watched_ids = get_user_watched_media_ids db;
               recommendations =
                 recommend_loop preference planned_ids watched_ids desired_genre global_media
           in Inr (slice_to (sort_reverse recommendations) top_n)))"

section \<open>The re-ranker\<close>

text \<open>
  The reply of the language model is arbitrary text, so what \<^verbatim>\<open>json.loads\<close> returns from
  it is any JSON value. An object is the list of the items of the Python dict, its keys
  distinct.
\<close>

datatype json =
    JNull
  | JBool bool
  | JInt int
  | JFloat real
  | JStr string
  | JList "json list"
  | JObject "(string \<times> json) list"

text \<open>
  \<^verbatim>\<open>parsed.get(key, default)\<close>: only a dict has the method; on every other value the
  attribute lookup raises (\<open>None\<close>).
\<close>

fun dict_get :: "json \<Rightarrow> string \<Rightarrow> json \<Rightarrow> json option" where
  "dict_get (JObject items) k d = Some (case map_of items k of Some v \<Rightarrow> v | None \<Rightarrow> d)"
| "dict_get j k d = None"

text \<open>
  \<^verbatim>\<open>for cid in candidate_ids\<close>: a list gives its elements, a string its characters, a
  dict its keys; nothing else can be iterated (\<open>None\<close>: TypeError).
\<close>

fun py_iter :: "json \<Rightarrow> json list option" where
  "py_iter (JList xs) = Some xs"
| "py_iter (JStr s) = Some (map (\<lambda>c. JStr [c]) s)"
| "py_iter (JObject items) = Some (map (\<lambda>kv. JStr (fst kv)) items)"
| "py_iter j = None"

text \<open>
  \<^verbatim>\<open>int(cid)\<close>: an int is itself, a bool is 0 or 1, a float is truncated towards zero, a
  string is read by \<open>int_of_str\<close> (Python's reading of an integer literal, a parameter:
  \<open>None\<close> where it raises ValueError); \<^verbatim>\<open>None\<close>, a list and a dict raise TypeError.
\<close>

fun py_int :: "(string \<Rightarrow> int option) \<Rightarrow> json \<Rightarrow> int option" where
  "py_int int_of_str (JInt i) = Some i"
| "py_int int_of_str (JBool b) = Some (if b then 1 else 0)"
| "py_int int_of_str (JFloat r) = Some (if 0 \<le> r then \<lfloor>r\<rfloor> else \<lceil>r\<rceil>)"
| "py_int int_of_str (JStr s) = int_of_str s"
| "py_int int_of_str j = None"

text \<open>The candidate dict, with the five keys the prompt reads.\<close>

record candidate =
  cand_id :: int
  cand_title :: string
  cand_format :: string
  cand_average_score :: "int option"
  cand_popularity :: "int option"

text \<open>
  The body of the \<^verbatim>\<open>try\<close> (lines 50 to 52): \<open>None\<close> when any of its three lines raises.
\<close>

definition try_parse_ids :: "(string \<Rightarrow> int option) \<Rightarrow> json pytext \<Rightarrow> int list option" where
  "try_parse_ids int_of_str response_text =
     (case json_loads response_text of
        Inl e \<Rightarrow> None
      | Inr parsed \<Rightarrow>
          (case dict_get parsed ''candidate_ids'' (JList []) of
             None \<Rightarrow> None
           | Some candidate_ids \<Rightarrow>
               (case py_iter candidate_ids of
                  None \<Rightarrow> None
                | Some cids \<Rightarrow> those (map (py_int int_of_str) cids))))"

text \<open>
  \<^verbatim>\<open>rerank_candidates_with_gemini\<close> (lines 16 to 56). The prompt only feeds the call of
  the external model, so the model of the function takes the outcome of that call as its
  argument \<open>response\<close>: \<open>Inl\<close> when \<^verbatim>\<open>generate_content\<close> (line 42) or the read of
  \<^verbatim>\<open>response.text\<close> (line 47) raises, both outside the \<^verbatim>\<open>try\<close>, else the text of the
  reply. The \<^verbatim>\<open>except\<close> branch returns the ids in the order of the input.
\<close>

definition rerank_candidates_with_gemini ::
  "(string \<Rightarrow> int option) \<Rightarrow> error + json pytext \<Rightarrow> string \<Rightarrow> candidate list
     \<Rightarrow> error + int list" where
  "rerank_candidates_with_gemini int_of_str response query candidates =
     (case response of
        Inl e \<Rightarrow> Inl e
      | Inr response_text \<Rightarrow>
          (case try_parse_ids int_of_str response_text of
             Some ids \<Rightarrow> Inr ids
           | None \<Rightarrow> Inr (map cand_id candidates)))"

section \<open>Terms for stating the properties, and example stores\<close>

text \<open>
  The terms one row of the preference query contributes to, in the order the loop visits
  them: its genres, then the names of its tags. A term stands in the list once for each
  time the loop adds the score to it.
\<close>

definition row_terms ::
  "string list pytext option \<times> tag list pytext option \<times> real \<Rightarrow> string list" where
  "row_terms row =
     (case row of (genres_json, tags_json, score) \<Rightarrow>
        try_loads genres_json @ map tag_name (try_loads tags_json))"

text \<open>The weight a profile gives a term, 0 for a term that is not a key.\<close>

definition weight_of :: "preference \<Rightarrow> string \<Rightarrow> real" where
  "weight_of p t = (case p t of None \<Rightarrow> 0 | Some w \<Rightarrow> w)"

text \<open>
  A history with two completed, scored entries (7 and 9) whose media both carry the genre
  Action, and a planned entry without a score.
\<close>

definition history_two_action :: personal_db where
  "history_two_action =
     \<lparr>db_media =
        [\<lparr>pm_id = 1, pm_genres = Some (Wellformed [''Action'']), pm_tags = Some (Wellformed [])\<rparr>,
         \<lparr>pm_id = 2, pm_genres = Some (Wellformed [''Action'', ''Drama'']), pm_tags = None\<rparr>,
         \<lparr>pm_id = 3, pm_genres = Some (Wellformed [''Action'']), pm_tags = None\<rparr>],
      db_media_list_entries =
        [\<lparr>mle_media_id = 1, mle_status = Some ''COMPLETED'', mle_score = Some 7\<rparr>,
         \<lparr>mle_media_id = 2, mle_status = Some ''COMPLETED'', mle_score = Some 9\<rparr>,
         \<lparr>mle_media_id = 3, mle_status = Some ''PLANNING'', mle_score = None\<rparr>]\<rparr>"

text \<open>
  A history with one completed entry, scored 7, whose media has Action both as a genre
  and as a tag.
\<close>

definition history_genre_and_tag :: personal_db where
  "history_genre_and_tag =
     \<lparr>db_media =
        [\<lparr>pm_id = 1, pm_genres = Some (Wellformed [''Action'']),
          pm_tags = Some (Wellformed [TagStr ''Action''])\<rparr>],
      db_media_list_entries =
        [\<lparr>mle_media_id = 1, mle_status = Some ''COMPLETED'', mle_score = Some 7\<rparr>]\<rparr>"

text \<open>
  A history with one completed entry, scored 7, whose media has the tag Action twice, as a
  bare string and as a dict.
\<close>

definition history_tag_twice :: personal_db where
  "history_tag_twice =
     \<lparr>db_media =
        [\<lparr>pm_id = 1, pm_genres = Some (Wellformed [''Drama'']),
          pm_tags = Some (Wellformed [TagStr ''Action'', TagDict (Some ''Action'') (Some 60)])\<rparr>],
      db_media_list_entries =
        [\<lparr>mle_media_id = 1, mle_status = Some ''COMPLETED'', mle_score = Some 7\<rparr>]\<rparr>"

text \<open>
  The media dict the catalog reader builds for a row that has a romaji title only.
\<close>

definition item :: "int \<Rightarrow> string \<Rightarrow> string list \<Rightarrow> tag list \<Rightarrow> media" where
  "item i t g tg =
     \<lparr>media_id = i, title_romaji = Some t, title_english = None, title_native = None,
      genres = g, tags = tg, average_score = Missing, popularity = Missing\<rparr>"

definition item_A :: media where
  "item_A = item 1 ''A'' [''Action''] []"

definition item_D :: media where
  "item_D = item 4 ''D'' [''Drama''] [TagStr ''Comedy'']"

definition item_E :: media where
  "item_E = item 5 ''E'' [''Action''] []"

definition item_C :: media where
  "item_C = item 3 ''C'' [''Action'', ''Comedy''] [TagDict (Some ''Comedy'') (Some 50)]"

definition item_H :: media where
  "item_H = item 8 ''H'' [''Action''] []"

text \<open>
  A catalog of five rows, in this order: A (id 1, which the history above has completed),
  D, E, C (id 3, which the history has planned; Comedy is both a genre and a tag of it)
  and H. The rows carry average scores and popularities, which the catalog reader does not
  select.
\<close>

definition catalog_example :: "global_row list" where
  "catalog_example =
     [\<lparr>gm_id = 1, gm_title_romaji = Some ''A'', gm_title_english = None, gm_title_native = None,
       gm_genres = Some (Wellformed [''Action'']), gm_tags = Some (Wellformed []),
       gm_average_score = Some 90, gm_popularity = Some 500000\<rparr>,
      \<lparr>gm_id = 4, gm_title_romaji = Some ''D'', gm_title_english = None, gm_title_native = None,
       gm_genres = Some (Wellformed [''Drama'']), gm_tags = Some (Wellformed [TagStr ''Comedy'']),
       gm_average_score = Some 70, gm_popularity = None\<rparr>,
      \<lparr>gm_id = 5, gm_title_romaji = Some ''E'', gm_title_english = None, gm_title_native = None,
       gm_genres = Some (Wellformed [''Action'']), gm_tags = None,
       gm_average_score = None, gm_popularity = None\<rparr>,
      \<lparr>gm_id = 3, gm_title_romaji = Some ''C'', gm_title_english = None, gm_title_native = None,
       gm_genres = Some (Wellformed [''Action'', ''Comedy'']),
       gm_tags = Some (Wellformed [TagDict (Some ''Comedy'') (Some 50)]),
       gm_average_score = Some 80, gm_popularity = Some 1000\<rparr>,
      \<lparr>gm_id = 8, gm_title_romaji = Some ''H'', gm_title_english = None, gm_title_native = None,
       gm_genres = Some (Wellformed [''Action'']), gm_tags = Some EmptyStr,
       gm_average_score = None, gm_popularity = None\<rparr>]"

text \<open>A catalog whose only row has a genres text that is not JSON.\<close>

definition catalog_malformed :: "global_row list" where
  "catalog_malformed =
     [\<lparr>gm_id = 9, gm_title_romaji = Some ''I'', gm_title_english = None, gm_title_native = None,
       gm_genres = Some Malformed, gm_tags = Some (Wellformed []),
       gm_average_score = None, gm_popularity = None\<rparr>]"

text \<open>
  A media dict with the tag Tragedy at rank 50, an average score of 80 and a popularity
  that is \<^verbatim>\<open>None\<close>.
\<close>

definition item_tragedy :: media where
  "item_tragedy =
     \<lparr>media_id = 20, title_romaji = None, title_english = Some ''T'', title_native = None,
      genres = [''Drama''], tags = [TagDict (Some ''Tragedy'') (Some 50), TagStr ''Tragedy''],
      average_score = Val 80, popularity = PyNone\<rparr>"

text \<open>Two candidates for the re-ranker, with the ids 1 and 2 in this order.\<close>

definition candidates_example :: "candidate list" where
  "candidates_example =
     [\<lparr>cand_id = 1, cand_title = ''A'', cand_format = ''TV'',
       cand_average_score = Some 90, cand_popularity = Some 500000\<rparr>,
      \<lparr>cand_id = 2, cand_title = ''B'', cand_format = ''OVA'',
       cand_average_score = None, cand_popularity = None\<rparr>]"

section \<open>Loops as sums\<close>

lemma foldl_case_add:
  "foldl (\<lambda>acc x. (case p (k x) of Some w \<Rightarrow> acc + f w x | None \<Rightarrow> acc)) (a::real) xs =
     a + (\<Sum>x\<leftarrow>xs. (case p (k x) of Some w \<Rightarrow> f w x | None \<Rightarrow> 0))"
  by (induction xs arbitrary: a) (auto split: option.splits)

lemma get_or_0_eq: "get_or_0 e = (case e of Val v \<Rightarrow> v | PyNone \<Rightarrow> 0 | Missing \<Rightarrow> 0)"
  by (simp add: get_or_0_def split: entry.splits)

lemma tag_term_eq:
  "(case p (tag_name t) of Some w \<Rightarrow> w * (tag_rank t / 100.0) | None \<Rightarrow> 0) =
     (case t of
        TagStr s \<Rightarrow> (case p s of Some w \<Rightarrow> w * (1 / 100) | None \<Rightarrow> (0::real))
      | TagDict nm rk \<Rightarrow>
          (case p (case nm of Some s \<Rightarrow> s | None \<Rightarrow> []) of
             Some w \<Rightarrow> w * ((case rk of Some r \<Rightarrow> r | None \<Rightarrow> 1) / 100)
           | None \<Rightarrow> 0))"
  by (cases t) (simp_all split: option.splits)

section \<open>The similarity score is the sum of its four parts\<close>

text \<open>
  C1. For every media item and every preference profile, the similarity score is the sum,
  starting from 0, of: the profile weight of each genre of the item that is a key of the
  profile; for each tag of the item, resolved to its name and rank (a dict's name is the
  empty string and its rank is 1 where the field is absent, a bare string is its own name
  with rank 1), the weight of the name times rank / 100 where the name is a key; the
  average score times 0.1; and the popularity divided by 1,000,000, a missing or
  \<^verbatim>\<open>None\<close> average score or popularity counting as 0.
\<close>

theorem compute_similarity_is_sum:
  "compute_similarity m preference =
     0 + (\<Sum>g\<leftarrow>genres m. (case preference g of Some w \<Rightarrow> w | None \<Rightarrow> 0))
       + (\<Sum>t\<leftarrow>tags m.
            (case t of
               TagStr s \<Rightarrow> (case preference s of Some w \<Rightarrow> w * (1 / 100) | None \<Rightarrow> 0)
             | TagDict nm rk \<Rightarrow>
                 (case preference (case nm of Some s \<Rightarrow> s | None \<Rightarrow> []) of
                    Some w \<Rightarrow> w * ((case rk of Some r \<Rightarrow> r | None \<Rightarrow> 1) / 100)
                  | None \<Rightarrow> 0)))
       + (case average_score m of Val v \<Rightarrow> v | PyNone \<Rightarrow> 0 | Missing \<Rightarrow> 0) * 0.1
       + (case popularity m of Val v \<Rightarrow> v | PyNone \<Rightarrow> 0 | Missing \<Rightarrow> 0) / 1000000"
proof -
  have g: "foldl (\<lambda>score genre.
              (case preference genre of Some w \<Rightarrow> score + w | None \<Rightarrow> score)) 0 (genres m) =
           0 + (\<Sum>g\<leftarrow>genres m. (case preference g of Some w \<Rightarrow> w | None \<Rightarrow> 0))"
    using foldl_case_add [where p = preference and k = "\<lambda>x. x" and f = "\<lambda>w x. w"
        and a = 0 and xs = "genres m"] by simp
  have t: "foldl (\<lambda>score tag.
              (case preference (tag_name tag) of
                 Some w \<Rightarrow> score + w * (tag_rank tag / 100.0)
               | None \<Rightarrow> score)) a (tags m) =
           a + (\<Sum>t\<leftarrow>tags m.
                  (case preference (tag_name t) of
                     Some w \<Rightarrow> w * (tag_rank t / 100.0) | None \<Rightarrow> 0))" for a
    using foldl_case_add [where p = preference and k = tag_name
        and f = "\<lambda>w x. w * (tag_rank x / 100.0)" and a = a and xs = "tags m"]
    by simp
  show ?thesis
    by (simp add: compute_similarity_def Let_def g t get_or_0_eq tag_term_eq)
qed

text \<open>
  Tag damping on an example: against a profile that gives Tragedy the weight 10, the tag
  Tragedy at rank 50 contributes 10 * 0.5 = 5 and the bare tag Tragedy 10 * 0.01 = 0.1; the
  genre Drama is not in the profile, the average score 80 adds 8 and the popularity
  \<^verbatim>\<open>None\<close> adds 0.
\<close>

theorem compute_similarity_is_sum_witness:
  "compute_similarity item_tragedy [''Tragedy'' \<mapsto> 10] = 0 + 0 + (5 + 0.1) + 8 + 0"
  using compute_similarity_is_sum [of item_tragedy "[''Tragedy'' \<mapsto> 10]"]
  by (simp add: item_tragedy_def)

section \<open>The preference profile adds the score once for each occurrence of a term\<close>

lemma dom_add_weight: "dom (add_weight p k s) = insert k (dom p)"
  by (simp add: add_weight_def)

lemma weight_of_add_weight:
  "weight_of (add_weight p k s) t = weight_of p t + (if t = k then s else 0)"
  by (simp add: add_weight_def weight_of_def)

lemma dom_foldl_add_weight:
  "dom (foldl (\<lambda>p x. add_weight p (k x) s) p xs) = dom p \<union> set (map k xs)"
  by (induction xs arbitrary: p) (auto simp: dom_add_weight)

lemma weight_of_foldl_add_weight:
  "weight_of (foldl (\<lambda>p x. add_weight p (k x) s) p xs) t =
     weight_of p t + s * real (count_list (map k xs) t)"
  by (induction xs arbitrary: p) (auto simp: weight_of_add_weight algebra_simps)

lemma dom_preference_row: "dom (preference_row p row) = dom p \<union> set (row_terms row)"
  by (cases row)
     (simp add: preference_row_def row_terms_def Let_def dom_foldl_add_weight
        dom_foldl_add_weight [where k = "\<lambda>x. x", simplified] Un_assoc)

lemma weight_of_preference_row:
  "weight_of (preference_row p row) t =
     weight_of p t + snd (snd row) * real (count_list (row_terms row) t)"
  by (cases row)
     (simp add: preference_row_def row_terms_def Let_def weight_of_foldl_add_weight
        weight_of_foldl_add_weight [where k = "\<lambda>x. x", simplified] algebra_simps)

lemma dom_foldl_preference_row:
  "dom (foldl preference_row p rows) = dom p \<union> (\<Union>row\<in>set rows. set (row_terms row))"
  by (induction rows arbitrary: p) (auto simp: dom_preference_row)

lemma weight_of_foldl_preference_row:
  "weight_of (foldl preference_row p rows) t =
     weight_of p t + (\<Sum>row\<leftarrow>rows. snd (snd row) * real (count_list (row_terms row) t))"
  by (induction rows arbitrary: p) (simp_all add: weight_of_preference_row)

lemma map_eq_dom_weight: "p t = (if t \<in> dom p then Some (weight_of p t) else None)"
  by (auto simp: weight_of_def dom_def)

text \<open>
  The rows of the query: one for each pair of a media row and a list entry with the same
  media id, the status COMPLETED and a score.
\<close>

lemma preference_query_rows:
  "(g, t, s) \<in> set (preference_query db) \<longleftrightarrow>
     (\<exists>m\<in>set (db_media db). \<exists>e\<in>set (db_media_list_entries db).
        pm_id m = mle_media_id e \<and> mle_status e = Some ''COMPLETED'' \<and> mle_score e = Some s \<and>
        g = pm_genres m \<and> t = pm_tags m)"
proof
  assume "(g, t, s) \<in> set (preference_query db)"
  then show "\<exists>m\<in>set (db_media db). \<exists>e\<in>set (db_media_list_entries db).
        pm_id m = mle_media_id e \<and> mle_status e = Some ''COMPLETED'' \<and> mle_score e = Some s \<and>
        g = pm_genres m \<and> t = pm_tags m"
    by (fastforce simp: preference_query_def)
next
  assume "\<exists>m\<in>set (db_media db). \<exists>e\<in>set (db_media_list_entries db).
        pm_id m = mle_media_id e \<and> mle_status e = Some ''COMPLETED'' \<and> mle_score e = Some s \<and>
        g = pm_genres m \<and> t = pm_tags m"
  then obtain m e where "m \<in> set (db_media db)" "e \<in> set (db_media_list_entries db)"
    "pm_id m = mle_media_id e" "mle_status e = Some ''COMPLETED''" "mle_score e = Some s"
    "g = pm_genres m" "t = pm_tags m"
    by blast
  then show "(g, t, s) \<in> set (preference_query db)"
    by (force simp: preference_query_def intro!: bexI [of _ m] bexI [of _ e])
qed

lemma preference_query_two_action:
  "preference_query history_two_action =
     [(Some (Wellformed [''Action'']), Some (Wellformed []), 7),
      (Some (Wellformed [''Action'', ''Drama'']), None, 9)]"
  by (simp add: preference_query_def history_two_action_def)

text \<open>
  C2, as the code has it. The rows of the preference query are the history entries with
  status COMPLETED and a score that is not NULL, each joined with its media. The profile
  has a key for exactly the terms (genres and resolved tag names) of these rows, and the
  weight of a term is the sum, over the rows, of the row's score times the number of times
  the term occurs among the row's genres and tag names: genres and tags add to the same
  key, and a term that an entry carries twice (as a genre and as a tag, say) receives that
  entry's score twice.
\<close>

theorem get_user_preferences_weight:
  "get_user_preferences db t =
     (if t \<in> (\<Union>row\<in>set (preference_query db). set (row_terms row))
      then Some (\<Sum>row\<leftarrow>preference_query db.
                   snd (snd row) * real (count_list (row_terms row) t))
      else None)"
proof -
  have d: "dom (get_user_preferences db) =
             (\<Union>row\<in>set (preference_query db). set (row_terms row))"
    by (simp add: get_user_preferences_def dom_foldl_preference_row)
  have "weight_of Map.empty t = 0"
    by (simp add: weight_of_def)
  then have w: "weight_of (get_user_preferences db) t =
             (\<Sum>row\<leftarrow>preference_query db.
                snd (snd row) * real (count_list (row_terms row) t))"
    by (simp add: get_user_preferences_def weight_of_foldl_preference_row)
  show ?thesis
    using map_eq_dom_weight [of "get_user_preferences db" t] by (simp only: d w)
qed

text \<open>
  The example of the claim: two completed entries with scores 7 and 9 that both carry the
  genre Action give Action the weight 16.
\<close>

theorem get_user_preferences_weight_witness:
  "get_user_preferences history_two_action ''Action'' = Some 16"
  using get_user_preferences_weight [of history_two_action "''Action''"]
  by (simp add: preference_query_two_action row_terms_def try_loads_def loads_if_def
        truthy_def json_loads_def)

text \<open>
  C2 as stated, the sum of the scores of the entries that carry the term, fails where an
  entry carries the term more than once. The only qualifying entry of the first history has
  the score 7 and carries Action as a genre and as a tag; the only one of the second has the
  score 7 and carries the tag Action twice. In both the profile weight of Action is 14.
\<close>

theorem get_user_preferences_counts_twice:
  "preference_query history_genre_and_tag =
     [(Some (Wellformed [''Action'']), Some (Wellformed [TagStr ''Action'']), 7)] \<and>
   get_user_preferences history_genre_and_tag ''Action'' = Some 14 \<and>
   preference_query history_tag_twice =
     [(Some (Wellformed [''Drama'']),
       Some (Wellformed [TagStr ''Action'', TagDict (Some ''Action'') (Some 60)]), 7)] \<and>
   get_user_preferences history_tag_twice ''Action'' = Some 14"
  by (simp add: get_user_preferences_def preference_query_def history_genre_and_tag_def
        history_tag_twice_def preference_row_def try_loads_def loads_if_def truthy_def
        json_loads_def add_weight_def)

section \<open>The loop, the sort and the slice\<close>

text \<open>
  The loop keeps, in catalog order, the items that are not watched and pass the genre
  filter, each with its similarity after the two boosts.
\<close>

lemma recommend_loop_eq:
  "recommend_loop preference planned_ids watched_ids desired_genre global_media =
     map (\<lambda>m. (m, planned_boost planned_ids m
                      (genre_boost desired_genre m (compute_similarity m preference))))
       (filter (\<lambda>m. media_id m \<notin> watched_ids \<and> \<not> genre_filtered_out desired_genre m)
          global_media)"
  by (induction global_media) (simp_all add: Let_def)

lemma mset_sort_reverse: "mset (sort_reverse xs) = mset xs"
  by (simp add: sort_reverse_def)

lemma set_sort_reverse: "set (sort_reverse xs) = set xs"
  by (simp add: sort_reverse_def)

lemma sorted_sort_reverse: "sorted (rev (map snd (sort_reverse xs)))"
  by (simp add: sort_reverse_def rev_map)

lemma filter_sort_reverse:
  "filter (\<lambda>c. snd c = k) (sort_reverse xs) = filter (\<lambda>c. snd c = k) xs"
  by (simp add: sort_reverse_def rev_filter [symmetric] sort_key_stable)

lemma set_slice_to: "set (slice_to xs n) \<subseteq> set xs"
  by (auto simp: slice_to_def dest: in_set_takeD)

lemma slice_to_pos: "0 < n \<Longrightarrow> slice_to xs n = take (nat n) xs"
  by (simp add: slice_to_def)

lemma sorted_rev_take_drop:
  assumes "sorted (rev (map f xs))" "a \<in> set (take n xs)" "b \<in> set (drop n xs)"
  shows "f b \<le> f a"
proof -
  have "sorted (rev (map f (take n xs @ drop n xs)))"
    using assms(1) by simp
  then show ?thesis
    using assms(2,3) by (auto simp: sorted_append simp del: append_take_drop_id)
qed

lemma recommend_top_media_Inr:
  assumes "recommend_top_media db global_db top_n desired_genre = Inr out"
  obtains global_media where
    "get_global_media global_db = Inr global_media"
    "out = slice_to (sort_reverse (recommend_loop (get_user_preferences db)
             (get_user_planned_media_ids db) (get_user_watched_media_ids db)
             desired_genre global_media)) top_n"
proof (cases "get_global_media global_db")
  case (Inl e)
  then show ?thesis
    using assms by (simp add: recommend_top_media_def)
next
  case (Inr global_media)
  then have "out = slice_to (sort_reverse (recommend_loop (get_user_preferences db)
             (get_user_planned_media_ids db) (get_user_watched_media_ids db)
             desired_genre global_media)) top_n"
    using assms by (simp add: recommend_top_media_def Let_def)
  with Inr show ?thesis
    by (rule that)
qed

text \<open>Every pair of the output went through the loop: it passed both filters.\<close>

lemma recommended_is_candidate:
  assumes "recommend_top_media db global_db top_n desired_genre = Inr out"
    and "(m, s) \<in> set out"
  shows "media_id m \<notin> get_user_watched_media_ids db \<and>
         \<not> genre_filtered_out desired_genre m \<and>
         s = planned_boost (get_user_planned_media_ids db) m
               (genre_boost desired_genre m (compute_similarity m (get_user_preferences db)))"
proof -
  from assms(1) obtain global_media where
    out: "out = slice_to (sort_reverse (recommend_loop (get_user_preferences db)
             (get_user_planned_media_ids db) (get_user_watched_media_ids db)
             desired_genre global_media)) top_n"
    by (rule recommend_top_media_Inr)
  have "(m, s) \<in> set (recommend_loop (get_user_preferences db)
             (get_user_planned_media_ids db) (get_user_watched_media_ids db)
             desired_genre global_media)"
    using assms(2) set_slice_to [of "sort_reverse (recommend_loop (get_user_preferences db)
             (get_user_planned_media_ids db) (get_user_watched_media_ids db)
             desired_genre global_media)" top_n]
    unfolding out set_sort_reverse by (rule subsetD [rotated])
  then show ?thesis
    unfolding recommend_loop_eq by auto
qed

section \<open>The engine on the example stores\<close>

lemma item_fields:
  "media_id (item i t g tg) = i" "genres (item i t g tg) = g" "tags (item i t g tg) = tg"
  "average_score (item i t g tg) = Missing" "popularity (item i t g tg) = Missing"
  by (simp_all add: item_def)

lemma catalog_example_items:
  "get_global_media catalog_example = Inr [item_A, item_D, item_E, item_C, item_H]"
  by (simp add: catalog_example_def item_A_def item_D_def item_E_def item_C_def item_H_def
        item_def loads_if_def truthy_def json_loads_def)

lemma preferences_two_action:
  "get_user_preferences history_two_action = [''Action'' \<mapsto> 16, ''Drama'' \<mapsto> 9]"
  by (rule ext)
     (simp add: get_user_preferences_def preference_query_two_action preference_row_def
        try_loads_def loads_if_def truthy_def json_loads_def add_weight_def)

lemma planned_two_action: "get_user_planned_media_ids history_two_action = {3}"
  by (simp add: get_user_planned_media_ids_def history_two_action_def)

lemma watched_two_action: "get_user_watched_media_ids history_two_action = {1, 2}"
  by (auto simp add: get_user_watched_media_ids_def history_two_action_def)

lemma similarity_item:
  "compute_similarity (item i t g tg) p =
     foldl (\<lambda>score tag.
              (case p (tag_name tag) of
                 Some w \<Rightarrow> score + w * (tag_rank tag / 100.0)
               | None \<Rightarrow> score))
       (foldl (\<lambda>score genre. (case p genre of Some w \<Rightarrow> score + w | None \<Rightarrow> score)) 0 g) tg"
  by (simp add: compute_similarity_def item_def get_or_0_def)

lemma similarity_examples:
  "compute_similarity item_A [''Action'' \<mapsto> 16, ''Drama'' \<mapsto> 9] = 16"
  "compute_similarity item_D [''Action'' \<mapsto> 16, ''Drama'' \<mapsto> 9] = 9"
  "compute_similarity item_E [''Action'' \<mapsto> 16, ''Drama'' \<mapsto> 9] = 16"
  "compute_similarity item_C [''Action'' \<mapsto> 16, ''Drama'' \<mapsto> 9] = 16"
  "compute_similarity item_H [''Action'' \<mapsto> 16, ''Drama'' \<mapsto> 9] = 16"
  by (simp_all add: item_A_def item_D_def item_E_def item_C_def item_H_def similarity_item)

lemma item_ids:
  "media_id item_A = 1" "media_id item_D = 4" "media_id item_E = 5" "media_id item_C = 3"
  "media_id item_H = 8"
  by (simp_all add: item_A_def item_D_def item_E_def item_C_def item_H_def item_fields)

lemma lower_examples:
  "lower ''COMEDY'' = ''comedy''" "lower ''Comedy'' = ''comedy''"
  "lower ''Action'' = ''action''" "lower ''Drama'' = ''drama''"
  by (simp_all add: lower_def lower_char_def)

lemma lowered_examples:
  "genres_lower item_A = [''action'']" "tags_lower item_A = []"
  "genres_lower item_D = [''drama'']" "tags_lower item_D = [''comedy'']"
  "genres_lower item_E = [''action'']" "tags_lower item_E = []"
  "genres_lower item_C = [''action'', ''comedy'']" "tags_lower item_C = [''comedy'']"
  "genres_lower item_H = [''action'']" "tags_lower item_H = []"
  by (simp_all add: genres_lower_def tags_lower_def item_A_def item_D_def item_E_def
        item_C_def item_H_def item_fields lower_examples)

lemma recommend_loop_example:
  "recommend_loop [''Action'' \<mapsto> 16, ''Drama'' \<mapsto> 9] {3} {1, 2} None
     [item_A, item_D, item_E, item_C, item_H] =
   [(item_D, 9), (item_E, 16), (item_C, 24), (item_H, 16)]"
  by (simp add: similarity_examples item_ids genre_filtered_out_def genre_boost_def
        planned_boost_def)

lemma sort_reverse_example:
  "sort_reverse [(a, 9), (b, 16), (c, 24), (d, 16)] = [(c, 24), (b, 16), (d, 16), (a, 9)]"
  by (simp add: sort_reverse_def)

lemma recommend_example:
  "recommend_top_media history_two_action catalog_example 3 None =
     Inr [(item_C, 24), (item_E, 16), (item_H, 16)]"
  unfolding recommend_top_media_def Let_def catalog_example_items preferences_two_action
    planned_two_action watched_two_action sum.case recommend_loop_example sort_reverse_example
  by (simp add: slice_to_def)

lemma recommend_loop_comedy:
  "recommend_loop [''Action'' \<mapsto> 16, ''Drama'' \<mapsto> 9] {3} {1, 2} (Some ''COMEDY'')
     [item_A, item_D, item_E, item_C, item_H] =
   [(item_D, 9.9), (item_C, 28.8)]"
  by (simp add: similarity_examples item_ids genre_filtered_out_def genre_boost_def
        planned_boost_def lowered_examples lower_examples)

lemma sort_reverse_comedy: "sort_reverse [(a, 9.9), (b, 28.8)] = [(b, 28.8), (a, 9.9)]"
  by (simp add: sort_reverse_def)

lemma recommend_comedy:
  "recommend_top_media history_two_action catalog_example 3 (Some ''COMEDY'') =
     Inr [(item_C, 28.8), (item_D, 9.9)]"
  unfolding recommend_top_media_def Let_def catalog_example_items preferences_two_action
    planned_two_action watched_two_action sum.case recommend_loop_comedy sort_reverse_comedy
  by (simp add: slice_to_def)

section \<open>Watched items are never recommended\<close>

text \<open>
  C3. Whatever the catalog, the history, \<open>top_n\<close> and \<open>desired_genre\<close> are: when the
  engine returns a list, no item of it has an id in the watched set.
\<close>

theorem watched_never_recommended:
  assumes "recommend_top_media db global_db top_n desired_genre = Inr out"
    and "(m, s) \<in> set out"
  shows "media_id m \<notin> get_user_watched_media_ids db"
  using recommended_is_candidate [OF assms] by simp

text \<open>
  On the example stores the completed item A, whose similarity of 16 would have placed it
  among the first three, is left out; E is in the output and is not watched.
\<close>

theorem watched_never_recommended_witness:
  "recommend_top_media history_two_action catalog_example 3 None =
     Inr [(item_C, 24), (item_E, 16), (item_H, 16)] \<and>
   (item_E, 16) \<in> set [(item_C, 24 :: real), (item_E, 16), (item_H, 16)] \<and>
   get_user_watched_media_ids history_two_action = {1, 2} \<and>
   media_id item_E \<notin> get_user_watched_media_ids history_two_action"
proof -
  have "(item_E, 16) \<in> set [(item_C, 24), (item_E, 16::real), (item_H, 16)]"
    by simp
  from watched_never_recommended [OF recommend_example this] recommend_example
    watched_two_action
  show ?thesis
    by simp
qed

section \<open>The genre filter and its boost\<close>

text \<open>
  C4. When \<open>desired_genre\<close> is set (a string that is not empty), the candidates the loop
  keeps are exactly the catalog items that are not watched and have the lowered
  \<open>desired_genre\<close> among their lowered genres or their lowered tag names: an item that
  matches neither is excluded. The score of every candidate is its similarity times exactly
  one genre factor, 1.2 when a genre matches (also when a tag matches as well) and 1.1 when
  only a tag matches, times the planned factor of C5. The same holds of every pair of the
  engine's output.
\<close>

theorem genre_filter_and_boost:
  assumes "g \<noteq> []"
  shows "map fst (recommend_loop preference planned_ids watched_ids (Some g) global_media) =
           filter (\<lambda>m. media_id m \<notin> watched_ids \<and>
                       (lower g \<in> set (genres_lower m) \<or> lower g \<in> set (tags_lower m)))
             global_media \<and>
         ((m, s) \<in> set (recommend_loop preference planned_ids watched_ids (Some g) global_media)
            \<longrightarrow> s = compute_similarity m preference
                     * (if lower g \<in> set (genres_lower m) then 1.2 else 1.1)
                     * (if media_id m \<in> planned_ids then 1.5 else 1)) \<and>
         (recommend_top_media db global_db top_n (Some g) = Inr out \<longrightarrow> (m, s) \<in> set out
            \<longrightarrow> (lower g \<in> set (genres_lower m) \<or> lower g \<in> set (tags_lower m)) \<and>
                s = compute_similarity m (get_user_preferences db)
                      * (if lower g \<in> set (genres_lower m) then 1.2 else 1.1)
                      * (if media_id m \<in> get_user_planned_media_ids db then 1.5 else 1))"
proof (intro conjI impI)
  have "(\<lambda>m. media_id m \<notin> watched_ids \<and> \<not> genre_filtered_out (Some g) m) =
        (\<lambda>m. media_id m \<notin> watched_ids \<and>
              (lower g \<in> set (genres_lower m) \<or> lower g \<in> set (tags_lower m)))"
    using assms by (auto simp: genre_filtered_out_def)
  then show "map fst (recommend_loop preference planned_ids watched_ids (Some g) global_media) =
           filter (\<lambda>m. media_id m \<notin> watched_ids \<and>
                       (lower g \<in> set (genres_lower m) \<or> lower g \<in> set (tags_lower m)))
             global_media"
    by (simp add: recommend_loop_eq comp_def)
next
  assume "(m, s) \<in> set (recommend_loop preference planned_ids watched_ids (Some g) global_media)"
  then have "\<not> genre_filtered_out (Some g) m"
    and "s = planned_boost planned_ids m (genre_boost (Some g) m (compute_similarity m preference))"
    by (auto simp: recommend_loop_eq)
  with assms show "s = compute_similarity m preference
                     * (if lower g \<in> set (genres_lower m) then 1.2 else 1.1)
                     * (if media_id m \<in> planned_ids then 1.5 else 1)"
    by (auto simp: genre_filtered_out_def genre_boost_def planned_boost_def)
next
  assume a: "recommend_top_media db global_db top_n (Some g) = Inr out" "(m, s) \<in> set out"
  from recommended_is_candidate [OF a] assms
  show "lower g \<in> set (genres_lower m) \<or> lower g \<in> set (tags_lower m)"
    by (auto simp: genre_filtered_out_def)
  from recommended_is_candidate [OF a] assms
  show "s = compute_similarity m (get_user_preferences db)
                      * (if lower g \<in> set (genres_lower m) then 1.2 else 1.1)
                      * (if media_id m \<in> get_user_planned_media_ids db then 1.5 else 1)"
    by (auto simp: genre_filtered_out_def genre_boost_def planned_boost_def)
qed

text \<open>
  With \<open>desired_genre = "COMEDY"\<close> only D and C remain. C has Comedy as a genre and as a
  tag: its similarity 16 is multiplied by 1.2 once (and by 1.5, being planned).
\<close>

theorem genre_filter_and_boost_witness:
  "''COMEDY'' \<noteq> [] \<and>
   map fst (recommend_loop [''Action'' \<mapsto> 16, ''Drama'' \<mapsto> 9] {3} {1, 2} (Some ''COMEDY'')
              [item_A, item_D, item_E, item_C, item_H]) = [item_D, item_C] \<and>
   recommend_top_media history_two_action catalog_example 3 (Some ''COMEDY'') =
     Inr [(item_C, 28.8), (item_D, 9.9)] \<and>
   lower ''COMEDY'' \<in> set (genres_lower item_C) \<and>
   lower ''COMEDY'' \<in> set (tags_lower item_C) \<and>
   (28.8 :: real) = compute_similarity item_C (get_user_preferences history_two_action) * 1.2 * 1.5"
proof -
  have n: "''COMEDY'' \<noteq> []"
    by simp
  have i: "(item_C, 28.8) \<in> set [(item_C, 28.8 :: real), (item_D, 9.9)]"
    by simp
  have g: "lower ''COMEDY'' \<in> set (genres_lower item_C)"
    "lower ''COMEDY'' \<in> set (tags_lower item_C)"
    by (simp_all add: lowered_examples lower_examples)
  from genre_filter_and_boost
         [OF n, of "[''Action'' \<mapsto> 16, ''Drama'' \<mapsto> 9]" "{3}" "{1, 2}"
            "[item_A, item_D, item_E, item_C, item_H]" item_C "28.8" history_two_action
            catalog_example 3 "[(item_C, 28.8), (item_D, 9.9)]"]
       recommend_comedy i g
  show ?thesis
    by (simp add: planned_two_action item_ids recommend_loop_comedy lowered_examples
          lower_examples)
qed

section \<open>The planned boost\<close>

text \<open>
  C5. For every candidate the loop keeps, and so for every pair of the engine's output, with
  S the similarity after the genre boost: the final score is S * 1.5 when the item's id is
  in the planned set, and S otherwise.
\<close>

theorem planned_boost_exact:
  "((m, s) \<in> set (recommend_loop preference planned_ids watched_ids desired_genre global_media)
      \<longrightarrow> s = (if media_id m \<in> planned_ids
                 then genre_boost desired_genre m (compute_similarity m preference) * 1.5
                 else genre_boost desired_genre m (compute_similarity m preference))) \<and>
   (recommend_top_media db global_db top_n desired_genre = Inr out \<longrightarrow> (m, s) \<in> set out
      \<longrightarrow> s = (if media_id m \<in> get_user_planned_media_ids db
                 then genre_boost desired_genre m
                        (compute_similarity m (get_user_preferences db)) * 1.5
                 else genre_boost desired_genre m
                        (compute_similarity m (get_user_preferences db))))"
proof (intro conjI impI)
  assume "(m, s) \<in> set (recommend_loop preference planned_ids watched_ids desired_genre
                          global_media)"
  then have "s = planned_boost planned_ids m
                   (genre_boost desired_genre m (compute_similarity m preference))"
    by (auto simp: recommend_loop_eq)
  then show "s = (if media_id m \<in> planned_ids
                 then genre_boost desired_genre m (compute_similarity m preference) * 1.5
                 else genre_boost desired_genre m (compute_similarity m preference))"
    by (simp add: planned_boost_def)
next
  assume a: "recommend_top_media db global_db top_n desired_genre = Inr out" "(m, s) \<in> set out"
  from recommended_is_candidate [OF a]
  show "s = (if media_id m \<in> get_user_planned_media_ids db
                 then genre_boost desired_genre m
                        (compute_similarity m (get_user_preferences db)) * 1.5
                 else genre_boost desired_genre m
                        (compute_similarity m (get_user_preferences db)))"
    by (simp add: planned_boost_def)
qed

text \<open>The planned item C of the example: 16 * 1.5 = 24.\<close>

theorem planned_boost_exact_witness:
  "(item_C, 24) \<in> set (recommend_loop [''Action'' \<mapsto> 16, ''Drama'' \<mapsto> 9] {3} {1, 2} None
                         [item_A, item_D, item_E, item_C, item_H]) \<and>
   recommend_top_media history_two_action catalog_example 3 None =
     Inr [(item_C, 24), (item_E, 16), (item_H, 16)] \<and>
   (item_C, 24) \<in> set [(item_C, 24 :: real), (item_E, 16), (item_H, 16)] \<and>
   media_id item_C \<in> {3} \<and>
   get_user_planned_media_ids history_two_action = {3} \<and>
   (24 :: real) =
     genre_boost None item_C
       (compute_similarity item_C [''Action'' \<mapsto> 16, ''Drama'' \<mapsto> 9]) * 1.5 \<and>
   (24 :: real) =
     genre_boost None item_C
       (compute_similarity item_C (get_user_preferences history_two_action)) * 1.5"
proof -
  note t = planned_boost_exact
         [of item_C 24 "[''Action'' \<mapsto> 16, ''Drama'' \<mapsto> 9]" "{3}" "{1, 2}" None
            "[item_A, item_D, item_E, item_C, item_H]" history_two_action catalog_example 3
            "[(item_C, 24), (item_E, 16), (item_H, 16)]"]
  have i: "(item_C, 24) \<in> set [(item_C, 24 :: real), (item_E, 16), (item_H, 16)]"
    by simp
  have e: "(item_C, 24) \<in> set (recommend_loop [''Action'' \<mapsto> 16, ''Drama'' \<mapsto> 9] {3} {1, 2}
                                None [item_A, item_D, item_E, item_C, item_H])"
    unfolding recommend_loop_example by simp
  have p: "media_id item_C \<in> {3}"
    by (simp add: item_ids)
  from t e have "(24 :: real) =
      (if media_id item_C \<in> {3}
       then genre_boost None item_C
              (compute_similarity item_C [''Action'' \<mapsto> 16, ''Drama'' \<mapsto> 9]) * 1.5
       else genre_boost None item_C
              (compute_similarity item_C [''Action'' \<mapsto> 16, ''Drama'' \<mapsto> 9]))"
    by blast
  with p have a: "(24 :: real) =
      genre_boost None item_C
        (compute_similarity item_C [''Action'' \<mapsto> 16, ''Drama'' \<mapsto> 9]) * 1.5"
    by (simp only: if_True)
  from t recommend_example i have "(24 :: real) =
      (if media_id item_C \<in> get_user_planned_media_ids history_two_action
       then genre_boost None item_C
              (compute_similarity item_C (get_user_preferences history_two_action)) * 1.5
       else genre_boost None item_C
              (compute_similarity item_C (get_user_preferences history_two_action)))"
    by blast
  with p have b: "(24 :: real) =
      genre_boost None item_C
        (compute_similarity item_C (get_user_preferences history_two_action)) * 1.5"
    by (simp only: planned_two_action if_True)
  show ?thesis
    by (intro conjI) (rule e recommend_example i p planned_two_action a b)+
qed

section \<open>The output is the sorted, stable top of the candidates\<close>

text \<open>
  C6. For a positive \<open>top_n\<close> and a catalog that can be read, the engine returns a list
  \<open>out\<close> of at most \<open>top_n\<close> pairs, in descending order of the score. With \<open>rest\<close> the
  candidates left out: \<open>out\<close> and \<open>rest\<close> together are the candidates of the loop; when a
  candidate is left out, \<open>out\<close> has exactly \<open>top_n\<close> pairs; no pair left out has a higher
  score than a pair of \<open>out\<close>; and for every score, the pairs with that score stand in
  \<open>out\<close> followed by \<open>rest\<close> in the order in which the loop met them in the catalog.
\<close>

theorem top_n_sorted_stable:
  assumes "0 < top_n"
    and "get_global_media global_db = Inr global_media"
  shows "\<exists>out rest.
           recommend_top_media db global_db top_n desired_genre = Inr out \<and>
           length out \<le> nat top_n \<and>
           sorted (rev (map snd out)) \<and>
           mset (out @ rest) =
             mset (recommend_loop (get_user_preferences db) (get_user_planned_media_ids db)
                     (get_user_watched_media_ids db) desired_genre global_media) \<and>
           (rest \<noteq> [] \<longrightarrow> length out = nat top_n) \<and>
           (\<forall>a\<in>set out. \<forall>b\<in>set rest. snd b \<le> snd a) \<and>
           (\<forall>k. filter (\<lambda>c. snd c = k) (out @ rest) =
                  filter (\<lambda>c. snd c = k)
                    (recommend_loop (get_user_preferences db) (get_user_planned_media_ids db)
                       (get_user_watched_media_ids db) desired_genre global_media))"
proof -
  define cands where "cands = recommend_loop (get_user_preferences db)
      (get_user_planned_media_ids db) (get_user_watched_media_ids db) desired_genre global_media"
  define ranked where "ranked = sort_reverse cands"
  define out where "out = take (nat top_n) ranked"
  define rest where "rest = drop (nat top_n) ranked"
  have r: "recommend_top_media db global_db top_n desired_genre = Inr out"
    using assms
    by (simp add: recommend_top_media_def Let_def slice_to_pos out_def ranked_def cands_def)
  have s: "sorted (rev (map snd ranked))"
    by (simp add: ranked_def sorted_sort_reverse)
  have l: "length out \<le> nat top_n"
    by (simp add: out_def)
  have "map snd out = take (nat top_n) (map snd ranked)"
    by (simp add: out_def take_map)
  then have "rev (map snd out) =
      drop (length (map snd ranked) - nat top_n) (rev (map snd ranked))"
    by (simp only: rev_take)
  then have so: "sorted (rev (map snd out))"
    using s by (simp only: sorted_wrt_drop)
  have m: "mset (out @ rest) = mset cands"
    by (simp add: out_def rest_def ranked_def mset_sort_reverse)
  have f: "rest \<noteq> [] \<longrightarrow> length out = nat top_n"
    by (auto simp: out_def rest_def)
  have d: "\<forall>a\<in>set out. \<forall>b\<in>set rest. snd b \<le> snd a"
    using sorted_rev_take_drop [OF s] by (auto simp: out_def rest_def)
  have k: "\<forall>k. filter (\<lambda>c. snd c = k) (out @ rest) = filter (\<lambda>c. snd c = k) cands"
    by (simp add: out_def rest_def ranked_def filter_sort_reverse del: filter_append)
  show ?thesis
    using r l so m f d k unfolding cands_def by blast
qed

text \<open>
  The example with \<open>top_n = 3\<close>: of the four candidates D (9), E (16), C (24) and H (16)
  the output is C, E, H; E and H have the same score and keep their catalog order.
\<close>

theorem top_n_sorted_stable_witness:
  "(0 :: int) < 3 \<and>
   get_global_media catalog_example = Inr [item_A, item_D, item_E, item_C, item_H] \<and>
   recommend_top_media history_two_action catalog_example 3 None =
     Inr [(item_C, 24), (item_E, 16), (item_H, 16)] \<and>
   (\<exists>rest.
      mset ([(item_C, 24), (item_E, 16), (item_H, 16)] @ rest) =
      mset (recommend_loop (get_user_preferences history_two_action)
              (get_user_planned_media_ids history_two_action)
              (get_user_watched_media_ids history_two_action) None
              [item_A, item_D, item_E, item_C, item_H]))"
proof -
  have p: "(0 :: int) < 3"
    by simp
  from top_n_sorted_stable [OF p catalog_example_items, of history_two_action None]
  obtain out rest where
    o: "recommend_top_media history_two_action catalog_example 3 None = Inr out" and
    m: "mset (out @ rest) =
        mset (recommend_loop (get_user_preferences history_two_action)
              (get_user_planned_media_ids history_two_action)
              (get_user_watched_media_ids history_two_action) None
              [item_A, item_D, item_E, item_C, item_H])"
    by blast
  from o have "out = [(item_C, 24), (item_E, 16), (item_H, 16)]"
    unfolding recommend_example by simp
  with m have e: "\<exists>rest.
      mset ([(item_C, 24), (item_E, 16), (item_H, 16)] @ rest) =
      mset (recommend_loop (get_user_preferences history_two_action)
              (get_user_planned_media_ids history_two_action)
              (get_user_watched_media_ids history_two_action) None
              [item_A, item_D, item_E, item_C, item_H])"
    by blast
  show ?thesis
    by (intro conjI) (rule p catalog_example_items recommend_example e)+
qed

section \<open>Malformed genres and tags\<close>

lemma loads_if_error: "loads_if x = Inl e \<Longrightarrow> e = JSONDecodeError"
  by (auto simp: loads_if_def json_loads_def split: option.splits pytext.splits if_splits)

lemma loads_if_Malformed: "loads_if (Some Malformed) = Inl JSONDecodeError"
  by (simp add: loads_if_def truthy_def json_loads_def)

text \<open>
  In the preference builder the two \<^verbatim>\<open>try\<close> blocks turn a text that does not parse into
  the empty list: such a row adds nothing to the profile for that column.
\<close>

lemma try_loads_unparseable: "json_loads s = Inl e \<Longrightarrow> try_loads (Some s) = []"
  by (cases s) (simp_all add: try_loads_def loads_if_def truthy_def json_loads_def)

lemma preference_row_malformed: "preference_row p (Some Malformed, Some Malformed, s) = p"
  by (simp add: preference_row_def try_loads_def loads_if_Malformed)

text \<open>
  The catalog reader has no \<^verbatim>\<open>try\<close>: one row whose genres or tags do not parse makes
  the whole read, and with it the recommendation, end with the decoding error.
\<close>

lemma get_global_media_raises:
  "row \<in> set results \<Longrightarrow> gm_genres row = Some Malformed \<or> gm_tags row = Some Malformed \<Longrightarrow>
     get_global_media results = Inl JSONDecodeError"
proof (induction results)
  case Nil
  then show ?case by simp
next
  case (Cons r results)
  show ?case
  proof (cases "row = r")
    case True
    with Cons.prems(2) show ?thesis
      by (auto simp: loads_if_Malformed split: sum.splits dest: loads_if_error)
  next
    case False
    with Cons have "get_global_media results = Inl JSONDecodeError" by simp
    then show ?thesis
      by (auto split: sum.splits dest: loads_if_error)
  qed
qed

text \<open>
  C7 at a catalog whose only row has a genres text that is not JSON: the claim has the
  row's genres become the empty list and no error; the catalog reader and the engine end
  with the error instead.
\<close>

theorem malformed_catalog_row_raises:
  "get_global_media catalog_malformed = Inl JSONDecodeError \<and>
   recommend_top_media history_two_action catalog_malformed 10 None = Inl JSONDecodeError"
  by (simp add: recommend_top_media_def catalog_malformed_def loads_if_Malformed)

section \<open>Catalog items carry no average score and no popularity\<close>

lemma get_global_media_item:
  "get_global_media results = Inr media_list \<Longrightarrow> m \<in> set media_list \<Longrightarrow>
     \<exists>row\<in>set results.
        media_id m = gm_id row \<and> title_romaji m = gm_title_romaji row \<and>
        title_english m = gm_title_english row \<and> title_native m = gm_title_native row \<and>
        loads_if (gm_genres row) = Inr (genres m) \<and> loads_if (gm_tags row) = Inr (tags m) \<and>
        average_score m = Missing \<and> popularity m = Missing"
proof (induction results arbitrary: media_list)
  case Nil
  then show ?case by simp
next
  case (Cons row results)
  from Cons.prems(1) obtain g t rest where
    g: "loads_if (gm_genres row) = Inr g" and t: "loads_if (gm_tags row) = Inr t" and
    rest: "get_global_media results = Inr rest" and
    ml: "media_list = \<lparr>media_id = gm_id row, title_romaji = gm_title_romaji row,
           title_english = gm_title_english row, title_native = gm_title_native row,
           genres = g, tags = t, average_score = Missing, popularity = Missing\<rparr> # rest"
    by (auto split: sum.splits)
  show ?case
  proof (cases "m \<in> set rest")
    case True
    from Cons.IH [OF rest True] show ?thesis by auto
  next
    case False
    with Cons.prems(2) ml have "m = \<lparr>media_id = gm_id row, title_romaji = gm_title_romaji row,
           title_english = gm_title_english row, title_native = gm_title_native row,
           genres = g, tags = t, average_score = Missing, popularity = Missing\<rparr>"
      by simp
    with g t show ?thesis by simp
  qed
qed

text \<open>
  C10. Every media item the catalog reader produces takes its id, its three titles, its
  genres and its tags from one row of the table and has no average score and no popularity
  (whatever the row holds in these columns); so for every profile its similarity is the sum
  of the weights of its genres that are keys of the profile, plus, for each of its tags
  whose name is a key, the weight of the name times rank / 100 (a bare string is its own
  name with rank 1; a dict has its \<^verbatim>\<open>name\<close>, the empty string where absent, and its
  \<^verbatim>\<open>rank\<close>, 1 where absent), the other two terms being 0.
\<close>

theorem catalog_items_score_from_genres_and_tags:
  assumes "get_global_media results = Inr media_list"
    and "m \<in> set media_list"
  shows "average_score m = Missing \<and> popularity m = Missing \<and>
         (\<exists>row\<in>set results.
            media_id m = gm_id row \<and> title_romaji m = gm_title_romaji row \<and>
            title_english m = gm_title_english row \<and> title_native m = gm_title_native row \<and>
            loads_if (gm_genres row) = Inr (genres m) \<and>
            loads_if (gm_tags row) = Inr (tags m)) \<and>
         compute_similarity m preference =
           (\<Sum>g\<leftarrow>genres m. (case preference g of Some w \<Rightarrow> w | None \<Rightarrow> 0)) +
           (\<Sum>t\<leftarrow>tags m.
              (case t of
                 TagStr s \<Rightarrow> (case preference s of Some w \<Rightarrow> w * (1 / 100) | None \<Rightarrow> 0)
               | TagDict nm rk \<Rightarrow>
                   (case preference (case nm of Some s \<Rightarrow> s | None \<Rightarrow> []) of
                      Some w \<Rightarrow> w * ((case rk of Some r \<Rightarrow> r | None \<Rightarrow> 1) / 100)
                    | None \<Rightarrow> 0)))"
proof -
  from get_global_media_item [OF assms] obtain row where
    row: "row \<in> set results" "media_id m = gm_id row" "title_romaji m = gm_title_romaji row"
      "title_english m = gm_title_english row" "title_native m = gm_title_native row"
      "loads_if (gm_genres row) = Inr (genres m)" "loads_if (gm_tags row) = Inr (tags m)"
    and missing: "average_score m = Missing" "popularity m = Missing"
    by blast
  have g: "foldl (\<lambda>score genre.
              (case preference genre of Some w \<Rightarrow> score + w | None \<Rightarrow> score)) 0 (genres m) =
           0 + (\<Sum>g\<leftarrow>genres m. (case preference g of Some w \<Rightarrow> w | None \<Rightarrow> 0))"
    using foldl_case_add [where p = preference and k = "\<lambda>x. x" and f = "\<lambda>w x. w"
        and a = 0 and xs = "genres m"] by simp
  have t: "foldl (\<lambda>score tag.
              (case preference (tag_name tag) of
                 Some w \<Rightarrow> score + w * (tag_rank tag / 100.0)
               | None \<Rightarrow> score)) a (tags m) =
           a + (\<Sum>t\<leftarrow>tags m.
                  (case preference (tag_name t) of
                     Some w \<Rightarrow> w * (tag_rank t / 100.0) | None \<Rightarrow> 0))" for a
    using foldl_case_add [where p = preference and k = tag_name
        and f = "\<lambda>w x. w * (tag_rank x / 100.0)" and a = a and xs = "tags m"]
    by simp
  have "compute_similarity m preference =
           (\<Sum>g\<leftarrow>genres m. (case preference g of Some w \<Rightarrow> w | None \<Rightarrow> 0)) +
           (\<Sum>t\<leftarrow>tags m.
              (case t of
                 TagStr s \<Rightarrow> (case preference s of Some w \<Rightarrow> w * (1 / 100) | None \<Rightarrow> 0)
               | TagDict nm rk \<Rightarrow>
                   (case preference (case nm of Some s \<Rightarrow> s | None \<Rightarrow> []) of
                      Some w \<Rightarrow> w * ((case rk of Some r \<Rightarrow> r | None \<Rightarrow> 1) / 100)
                    | None \<Rightarrow> 0)))"
    by (simp add: compute_similarity_def Let_def g t tag_term_eq missing get_or_0_def)
  with row missing show ?thesis by blast
qed

text \<open>
  Two rows of the example catalog against a profile that gives Action the weight 16 and
  Comedy the weight 10. The row of C holds the average score 80 and the popularity 1000;
  the item read from it has neither, and its similarity is the weights of its genres Action
  and Comedy plus the weight of its tag Comedy damped by the rank 50: 16 + 10 + 10 * 0.5.
  The item D has the genre Drama, which is not in the profile, and the bare tag Comedy, of
  rank 1: 10 * 0.01.
\<close>

theorem catalog_items_score_from_genres_and_tags_witness:
  "get_global_media catalog_example = Inr [item_A, item_D, item_E, item_C, item_H] \<and>
   item_C \<in> set [item_A, item_D, item_E, item_C, item_H] \<and>
   item_D \<in> set [item_A, item_D, item_E, item_C, item_H] \<and>
   tags item_C = [TagDict (Some ''Comedy'') (Some 50)] \<and>
   tags item_D = [TagStr ''Comedy''] \<and>
   average_score item_C = Missing \<and> popularity item_C = Missing \<and>
   compute_similarity item_C [''Action'' \<mapsto> 16, ''Comedy'' \<mapsto> 10] = (16 + 10) + 10 * (50 / 100) \<and>
   compute_similarity item_D [''Action'' \<mapsto> 16, ''Comedy'' \<mapsto> 10] = 0 + 10 * (1 / 100)"
proof -
  have c: "item_C \<in> set [item_A, item_D, item_E, item_C, item_H]"
    by simp
  have d: "item_D \<in> set [item_A, item_D, item_E, item_C, item_H]"
    by simp
  from catalog_items_score_from_genres_and_tags
         [OF catalog_example_items c, of "[''Action'' \<mapsto> 16, ''Comedy'' \<mapsto> 10]"]
       catalog_items_score_from_genres_and_tags
         [OF catalog_example_items d, of "[''Action'' \<mapsto> 16, ''Comedy'' \<mapsto> 10]"]
       catalog_example_items
  show ?thesis
    by (simp add: item_C_def item_D_def item_fields)
qed

section \<open>The fallback of the re-ranker\<close>

text \<open>What the body of the \<^verbatim>\<open>try\<close> returns when none of its lines raises.\<close>

lemma those_eq_Some: "those xs = Some ys \<Longrightarrow> xs = map Some ys"
  by (induction xs arbitrary: ys) (auto split: option.splits)

lemma dict_get_Some:
  "dict_get j k d = Some v \<Longrightarrow>
     \<exists>items. j = JObject items \<and> v = (case map_of items k of Some x \<Rightarrow> x | None \<Rightarrow> d)"
  by (cases j) simp_all

lemma try_parse_ids_Some:
  assumes "try_parse_ids int_of_str response_text = Some ids"
  shows "\<exists>items cids.
           response_text = Wellformed (JObject items) \<and>
           py_iter (case map_of items ''candidate_ids'' of Some v \<Rightarrow> v | None \<Rightarrow> JList [])
             = Some cids \<and>
           map (py_int int_of_str) cids = map Some ids"
proof -
  from assms obtain parsed where p: "json_loads response_text = Inr parsed"
    by (auto simp: try_parse_ids_def split: sum.splits)
  then have w: "response_text = Wellformed parsed"
    by (cases response_text) (simp_all add: json_loads_def)
  from assms p obtain candidate_ids where
    c: "dict_get parsed ''candidate_ids'' (JList []) = Some candidate_ids"
    by (auto simp: try_parse_ids_def split: option.splits)
  from assms p c obtain cids where
    i: "py_iter candidate_ids = Some cids" and t: "those (map (py_int int_of_str) cids) = Some ids"
    by (auto simp: try_parse_ids_def split: option.splits)
  from dict_get_Some [OF c] obtain items where
    o: "parsed = JObject items"
       "candidate_ids = (case map_of items ''candidate_ids'' of Some x \<Rightarrow> x | None \<Rightarrow> JList [])"
    by blast
  from those_eq_Some [OF t] w o i show ?thesis
    by blast
qed

text \<open>
  C8, as the code has it. Once the call of the external model has returned a reply, the
  re-ranker does not raise, and what it returns is either the ids of the candidates in the
  order of the input or the whole list of ids read from a reply that is a JSON object,
  each converted by \<^verbatim>\<open>int\<close>, never a part of it; and when the text of the reply is not
  JSON, it returns the ids of the candidates in the order of the input.
\<close>

theorem rerank_fallback_on_unparseable_reply:
  "(\<exists>ids. rerank_candidates_with_gemini int_of_str (Inr response_text) query candidates
            = Inr ids \<and>
          (ids = map cand_id candidates \<or>
           (\<exists>items cids.
              response_text = Wellformed (JObject items) \<and>
              py_iter (case map_of items ''candidate_ids'' of
                         Some v \<Rightarrow> v | None \<Rightarrow> JList []) = Some cids \<and>
              map (py_int int_of_str) cids = map Some ids))) \<and>
   (json_loads response_text = Inl e \<longrightarrow>
      rerank_candidates_with_gemini int_of_str (Inr response_text) query candidates
        = Inr (map cand_id candidates))"
proof (cases "try_parse_ids int_of_str response_text")
  case None
  then show ?thesis
    by (simp add: rerank_candidates_with_gemini_def)
next
  case (Some ids)
  then have r: "rerank_candidates_with_gemini int_of_str (Inr response_text) query candidates
            = Inr ids"
    by (simp add: rerank_candidates_with_gemini_def)
  from Some have "json_loads response_text \<noteq> Inl e"
    by (auto simp: try_parse_ids_def)
  with r try_parse_ids_Some [OF Some] show ?thesis
    by auto
qed

text \<open>A reply that is not JSON, with the candidates 1 and 2.\<close>

theorem rerank_fallback_on_unparseable_reply_witness:
  "json_loads (Malformed :: json pytext) = Inl JSONDecodeError \<and>
   rerank_candidates_with_gemini (\<lambda>s. None) (Inr Malformed) ''mecha'' candidates_example
     = Inr [1, 2]"
  using rerank_fallback_on_unparseable_reply
    [of "\<lambda>s. None" Malformed "''mecha''" candidates_example JSONDecodeError]
  by (simp add: json_loads_def candidates_example_def)

text \<open>
  C8 as stated fails twice. An error of the call itself is raised to the caller: the call
  stands before the \<^verbatim>\<open>try\<close>. And a reply that is a JSON object without the key
  \<^verbatim>\<open>candidate_ids\<close> gives the empty list, the default of \<^verbatim>\<open>.get\<close>, not the ids 1 and 2
  of the input.
\<close>

theorem rerank_raises_and_returns_empty:
  "rerank_candidates_with_gemini (\<lambda>s. None) (Inl APIError) ''mecha'' candidates_example
     = Inl APIError \<and>
   rerank_candidates_with_gemini (\<lambda>s. None)
     (Inr (Wellformed (JObject [(''ids'', JList [JInt 2, JInt 1])]))) ''mecha''
     candidates_example = Inr [] \<and>
   map cand_id candidates_example = [1, 2]"
  by (simp add: rerank_candidates_with_gemini_def try_parse_ids_def json_loads_def
        candidates_example_def)

end
